theory Spec2Isabelle
  imports Complex_Main "HOL-Library.Finite_Map"
begin

section \<open>Data model\<close>

text \<open>
  The dashboard keeps its dates as strings and turns them into \<open>Date\<close> objects with
  \<open>toDate = (s) => new Date(s)\<close> whenever it compares them. A \<open>Date\<close> is
  represented here by its time value, the number of milliseconds since the epoch, and the
  platform's constructor is the parameter \<open>toDate\<close> of every function that calls it.
  A string that denotes no date gives an invalid \<open>Date\<close>, whose time value is \<open>NaN\<close>:
  that is \<open>None\<close>. The same holds for the day counts computed from two dates. Numbers
  that the code keeps as doubles (subtask weights, day differences, JSON numbers) are exact
  rationals here.
\<close>

type_synonym date = "int option"

record task =
  id_t :: string
  label :: string
  start :: string
  end_t :: string
  owner :: string
  category :: "string option"

text \<open>A chart row is a task with the two fields \<open>buildRows\<close> adds.\<close>

record row = task +
  offset :: "int option"
  length_r :: "int option"

text \<open>An entry of \<open>taskOverrides\<close>: every field is optional.\<close>

record override =
  start_o :: "string option"
  end_o :: "string option"
  owner_o :: "string option"
  label_o :: "string option"

record subtask =
  id_s :: string
  label_s :: string
  weight :: rat
  description :: string

text \<open>The stores of \<open>App\<close> that the derivations read.\<close>

record app =
  taskOverrides :: "string \<rightharpoonup> override"
  customTasks :: "task list"
  deletedTaskIds :: "string set"
  subtaskProgress :: "string \<rightharpoonup> (string \<rightharpoonup> bool)"

section \<open>Date helpers\<close>

definition KICKOFF :: string where
  "KICKOFF = ''2025-11-10''"

text \<open>\<open>Math.round\<close>: the nearest integer, a half rounded towards plus infinity.\<close>

definition Math_round :: "rat \<Rightarrow> int" where
  "Math_round x = \<lfloor>x + 1 / 2\<rfloor>"

text \<open>
  The comparisons \<open>a < b\<close> and \<open>a <= b\<close> of two dates or two numbers: false as soon as
  one side is \<open>NaN\<close>. \<open>a > b\<close> is \<open>lt_js b a\<close> and \<open>a >= b\<close> is \<open>le_js b a\<close>.
\<close>

definition lt_js :: "int option \<Rightarrow> int option \<Rightarrow> bool" where
  "lt_js a b =
     (case a of None \<Rightarrow> False | Some x \<Rightarrow> (case b of None \<Rightarrow> False | Some y \<Rightarrow> x < y))"

definition le_js :: "int option \<Rightarrow> int option \<Rightarrow> bool" where
  "le_js a b =
     (case a of None \<Rightarrow> False | Some x \<Rightarrow> (case b of None \<Rightarrow> False | Some y \<Rightarrow> x \<le> y))"

definition daysBetween :: "(string \<Rightarrow> date) \<Rightarrow> string \<Rightarrow> string \<Rightarrow> int option" where
  "daysBetween toDate a b =
     (case toDate b of
        None \<Rightarrow> None
      | Some tb \<Rightarrow>
          (case toDate a of
             None \<Rightarrow> None
           | Some ta \<Rightarrow> Some (Math_round (of_int (tb - ta) / (1000 * 60 * 60 * 24)))))"

text \<open>
  The date pickers of the dashboard hold either a date-only string \<open>yyyy-mm-dd\<close> of a
  calendar day, for which \<open>new Date\<close> gives midnight UTC of that day, or the empty string
  when they are cleared, for which it gives an invalid \<open>Date\<close>. \<open>isoDate\<close> is
  \<open>new Date\<close> on these strings and is the \<open>toDate\<close> of the examples; a string of
  another shape, or one that names no calendar day, is an invalid \<open>Date\<close> for it.
\<close>

definition isDigit :: "char \<Rightarrow> bool" where
  "isDigit c = (c \<in> set ''0123456789'')"

definition digits :: "string \<Rightarrow> int" where
  "digits s = fold (\<lambda>c n. 10 * n + (of_char c - 48)) s 0"

definition daysFromCivil :: "int \<Rightarrow> int \<Rightarrow> int \<Rightarrow> int" where
  "daysFromCivil y m d =
     (let y' = (if m \<le> 2 then y - 1 else y);
          era = y' div 400;
          yoe = y' - era * 400;
          doy = (153 * (if m > 2 then m - 3 else m + 9) + 2) div 5 + d - 1;
          doe = yoe * 365 + yoe div 4 - yoe div 100 + doy
      in era * 146097 + doe - 719468)"

definition daysInMonth :: "int \<Rightarrow> int \<Rightarrow> int" where
  "daysInMonth y m =
     (if m = 2 then (if y mod 4 = 0 \<and> (y mod 100 \<noteq> 0 \<or> y mod 400 = 0) then 29 else 28)
      else if m = 4 \<or> m = 6 \<or> m = 9 \<or> m = 11 then 30
      else 31)"

definition isoDate :: "string \<Rightarrow> date" where
  "isoDate s =
     (if length s = 10 \<and> list_all isDigit (take 4 s) \<and> s ! 4 = CHR ''-''
         \<and> list_all isDigit (take 2 (drop 5 s)) \<and> s ! 7 = CHR ''-''
         \<and> list_all isDigit (take 2 (drop 8 s))
      then
        (let y = digits (take 4 s); m = digits (take 2 (drop 5 s));
             d = digits (take 2 (drop 8 s))
         in if 1 \<le> m \<and> m \<le> 12 \<and> 1 \<le> d \<and> d \<le> daysInMonth y m
            then Some (daysFromCivil y m d * 86400000) else None)
      else None)"

section \<open>The effective task list\<close>

text \<open>\<open>a || b\<close> for an optional string \<open>a\<close>: undefined and the empty string are falsy.\<close>

definition or_js :: "string option \<Rightarrow> string \<Rightarrow> string" where
  "or_js a b = (case a of None \<Rightarrow> b | Some s \<Rightarrow> if s = [] then b else s)"

text \<open>
  \<open>buildRows\<close> and the callback it maps over the tasks; \<open>Math.max\<close> of a number and
  \<open>NaN\<close> is \<open>NaN\<close>.
\<close>

definition buildRow :: "(string \<Rightarrow> date) \<Rightarrow> task \<Rightarrow> row" where
  "buildRow toDate t =
     (let offset' = map_option (max 0) (daysBetween toDate KICKOFF (start t));
          length' = map_option (max 1) (daysBetween toDate (start t) (end_t t))
      in task.extend t (row.fields offset' length'))"

definition buildRows :: "(string \<Rightarrow> date) \<Rightarrow> task list \<Rightarrow> row list" where
  "buildRows toDate tasks = map (buildRow toDate) tasks"

text \<open>The callback that \<open>allTasks\<close> maps over the tasks that are not deleted.\<close>

definition withOverride :: "(string \<rightharpoonup> override) \<Rightarrow> task \<Rightarrow> task" where
  "withOverride overrides t =
     (case overrides (id_t t) of
        Some ov \<Rightarrow> t\<lparr>start := or_js (start_o ov) (start t),
                     end_t := or_js (end_o ov) (end_t t),
                     owner := or_js (owner_o ov) (owner t),
                     label := or_js (label_o ov) (label t)\<rparr>
      | None \<Rightarrow> t)"

definition allTasks :: "(string \<Rightarrow> date) \<Rightarrow> task list \<Rightarrow> app \<Rightarrow> row list" where
  "allTasks toDate allProjectTasks st =
     (let combinedTasks = allProjectTasks @ customTasks st;
          tasksWithOverrides =
            map (withOverride (taskOverrides st))
              (filter (\<lambda>t. id_t t \<notin> deletedTaskIds st) combinedTasks)
      in buildRows toDate tasksWithOverrides)"

section \<open>Weighted progress\<close>

text \<open>
  \<open>subtaskDefinitions\<close> is an object literal; it is an association list here, with
  \<open>Object.keys\<close> its keys and indexing a lookup.
\<close>

definition totalProgress :: "subtask list \<Rightarrow> (string \<rightharpoonup> bool) \<Rightarrow> rat" where
  "totalProgress subtasks completed =
     fold (\<lambda>s total. if completed (id_s s) = Some True then total + weight s * 100 else total)
       subtasks 0"

definition progress ::
  "(string \<times> subtask list) list \<Rightarrow> (string \<rightharpoonup> (string \<rightharpoonup> bool)) \<Rightarrow> 'a task_scheme list
     \<Rightarrow> (string \<rightharpoonup> int)" where
  "progress subtaskDefinitions sp tasks =
     (let result =
            fold (\<lambda>taskId result.
                    case map_of subtaskDefinitions taskId of
                      None \<Rightarrow> result
                    | Some subtasks \<Rightarrow>
                        let completed = (case sp taskId of None \<Rightarrow> Map.empty | Some c \<Rightarrow> c)
                        in result(taskId \<mapsto> Math_round (totalProgress subtasks completed)))
                 (map fst subtaskDefinitions) Map.empty
      in fold (\<lambda>t result.
                 if result (id_t t) = None \<or> result (id_t t) = Some 0
                 then result(id_t t \<mapsto> 0) else result)
              tasks result)"

text \<open>\<open>progress[task.id] || 0\<close>\<close>

definition taskProgress :: "(string \<rightharpoonup> int) \<Rightarrow> 'a task_scheme \<Rightarrow> int" where
  "taskProgress prog t = (case prog (id_t t) of None \<Rightarrow> 0 | Some p \<Rightarrow> p)"

section \<open>Lifecycle status\<close>

datatype status = Completed | NotStarted | Overdue | InProgress

text \<open>\<open>getTaskStatus\<close> of the owner view; the badge's variant and colour follow its label.\<close>

definition getTaskStatus ::
  "(string \<Rightarrow> date) \<Rightarrow> (string \<rightharpoonup> int) \<Rightarrow> string \<Rightarrow> 'a task_scheme \<Rightarrow> status" where
  "getTaskStatus toDate prog currentDate t =
     (let today = toDate currentDate; start' = toDate (start t); end' = toDate (end_t t)
      in if taskProgress prog t = 100 then Completed
         else if lt_js today start' then NotStarted
         else if lt_js end' today then Overdue
         else InProgress)"

text \<open>
  The counters of the dashboard and the body of its loop over the tasks. The chain of tests
  has no last \<open>else\<close>: a task that passes none of them is counted nowhere.
\<close>

record stats =
  notStarted :: nat
  inProgress :: nat
  completed :: nat
  overdue :: nat
  total :: nat

definition countTask ::
  "(string \<Rightarrow> date) \<Rightarrow> (string \<rightharpoonup> int) \<Rightarrow> string \<Rightarrow> 'a task_scheme \<Rightarrow> stats \<Rightarrow> stats" where
  "countTask toDate prog currentDate t s =
     (let today = toDate currentDate; start' = toDate (start t); end' = toDate (end_t t)
      in if taskProgress prog t = 100 then s\<lparr>completed := completed s + 1\<rparr>
         else if lt_js today start' then s\<lparr>notStarted := notStarted s + 1\<rparr>
         else if le_js start' today \<and> le_js today end'
           then s\<lparr>inProgress := inProgress s + 1\<rparr>
         else if lt_js end' today \<and> taskProgress prog t < 100
           then s\<lparr>overdue := overdue s + 1\<rparr>
         else s)"

definition dashboardStats ::
  "(string \<Rightarrow> date) \<Rightarrow> (string \<rightharpoonup> int) \<Rightarrow> string \<Rightarrow> 'a task_scheme list \<Rightarrow> stats" where
  "dashboardStats toDate prog currentDate tasks =
     fold (countTask toDate prog currentDate) tasks
       \<lparr>notStarted = 0, inProgress = 0, completed = 0, overdue = 0, total = length tasks\<rparr>"

text \<open>
  The countdown view: the status and the countdown of one task (the message repeats the
  countdown in words).
\<close>

datatype countdown_status = St_upcoming | St_in_progress | St_completed | St_overdue

definition tasksWithCountdown ::
  "(string \<Rightarrow> date) \<Rightarrow> (string \<rightharpoonup> int) \<Rightarrow> string \<Rightarrow> 'a task_scheme
     \<Rightarrow> countdown_status \<times> int option" where
  "tasksWithCountdown toDate prog currentDate t =
     (let daysUntilStart = daysBetween toDate currentDate (start t);
          daysUntilEnd = daysBetween toDate currentDate (end_t t)
      in if taskProgress prog t = 100 then (St_completed, Some 0)
         else if lt_js (Some 0) daysUntilStart then (St_upcoming, daysUntilStart)
         else if le_js (Some 0) daysUntilEnd then (St_in_progress, daysUntilEnd)
         else (St_overdue, map_option abs daysUntilEnd))"

section \<open>The filter layer\<close>

text \<open>The status part of the predicate of \<open>filteredTasks\<close>.\<close>

definition matchesStatus ::
  "(string \<Rightarrow> date) \<Rightarrow> string \<Rightarrow> (string \<rightharpoonup> int) \<Rightarrow> string \<Rightarrow> 'a task_scheme \<Rightarrow> bool" where
  "matchesStatus toDate statusFilter prog currentDate t =
     (if statusFilter \<noteq> ''all'' then
        (let today = toDate currentDate; start' = toDate (start t); end' = toDate (end_t t)
         in if statusFilter = ''completed'' then taskProgress prog t = 100
            else if statusFilter = ''in-progress''
              then le_js start' today \<and> le_js today end' \<and> taskProgress prog t < 100
            else if statusFilter = ''not-started'' then lt_js today start'
            else if statusFilter = ''overdue'' then lt_js end' today \<and> taskProgress prog t < 100
            else True)
      else True)"

fun includes_js :: "string \<Rightarrow> string \<Rightarrow> bool" where
  "includes_js [] sub = (sub = [])"
| "includes_js (c # cs) sub = (take (length sub) (c # cs) = sub \<or> includes_js cs sub)"

definition filteredTasks ::
  "(string \<Rightarrow> date) \<Rightarrow> (string \<Rightarrow> string) \<Rightarrow> string \<Rightarrow> string \<Rightarrow> string
     \<Rightarrow> (string \<rightharpoonup> int) \<Rightarrow> string \<Rightarrow> row list \<Rightarrow> row list" where
  "filteredTasks toDate toLowerCase searchTerm ownerFilter statusFilter prog currentDate tasks =
     filter (\<lambda>t.
        (searchTerm = [] \<or>
           includes_js (toLowerCase (label t)) (toLowerCase searchTerm) \<or>
           includes_js (toLowerCase (owner t)) (toLowerCase searchTerm)) \<and>
        (ownerFilter = ''all'' \<or> owner t = ownerFilter) \<and>
        matchesStatus toDate statusFilter prog currentDate t) tasks"

section \<open>Mutations\<close>

definition handleDeleteTask :: "string \<Rightarrow> app \<Rightarrow> app" where
  "handleDeleteTask taskId st =
     st\<lparr>deletedTaskIds := insert taskId (deletedTaskIds st),
        taskOverrides := (taskOverrides st)(taskId := None),
        subtaskProgress := (subtaskProgress st)(taskId := None)\<rparr>"

definition onResetTimelines :: "app \<Rightarrow> app" where
  "onResetTimelines st = st\<lparr>taskOverrides := Map.empty\<rparr>"

text \<open>
  \<open>onUpdateTask\<close> stores \<open>{ ...prev[taskId], ...updates }\<close>: a field of the updates wins
  over the field of the entry that is already there. Nothing compares the dates.
\<close>

definition onUpdateTask :: "string \<Rightarrow> override \<Rightarrow> app \<Rightarrow> app" where
  "onUpdateTask taskId updates st =
     (let merged =
        (case taskOverrides st taskId of
           None \<Rightarrow> updates
         | Some prev \<Rightarrow>
             \<lparr>start_o = (case start_o updates of None \<Rightarrow> start_o prev | Some v \<Rightarrow> Some v),
              end_o = (case end_o updates of None \<Rightarrow> end_o prev | Some v \<Rightarrow> Some v),
              owner_o = (case owner_o updates of None \<Rightarrow> owner_o prev | Some v \<Rightarrow> Some v),
              label_o = (case label_o updates of None \<Rightarrow> label_o prev | Some v \<Rightarrow> Some v)\<rparr>)
      in st\<lparr>taskOverrides := (taskOverrides st)(taskId \<mapsto> merged)\<rparr>)"

record taskData =
  label_d :: string
  start_d :: string
  end_d :: string
  owner_d :: string
  category_d :: "string option"

text \<open>
  \<open>handleCreateTask\<close> of \<open>App\<close>. The id is built from \<open>Date.now()\<close> and
  \<open>Math.random()\<close>; their printed forms are the parameters \<open>now\<close> and \<open>rnd\<close>.
\<close>

definition handleCreateTask :: "string \<Rightarrow> string \<Rightarrow> taskData \<Rightarrow> app \<Rightarrow> app" where
  "handleCreateTask now rnd d st =
     (let newTask = \<lparr>id_t = ''custom_'' @ now @ ''_'' @ rnd, label = label_d d,
                      start = start_d d, end_t = end_d d, owner = owner_d d,
                      category = category_d d\<rparr>
      in st\<lparr>customTasks := customTasks st @ [newTask]\<rparr>)"

definition categoryLabels :: "(string \<times> string) list" where
  "categoryLabels =
     [(''website'', ''Website''), (''tradeshow'', ''Tradeshow''),
      (''templates'', ''Templates''), (''visual-assets'', ''Visual Assets'')]"

text \<open>
  \<open>String.prototype.trim\<close> removes white space and line terminators from both ends;
  these are the ones among the code units below 256.
\<close>

definition isWhiteSpace :: "char \<Rightarrow> bool" where
  "isWhiteSpace c = ((of_char c :: nat) \<in> {9, 10, 11, 12, 13, 32, 160})"

definition trim :: "string \<Rightarrow> string" where
  "trim s = rev (dropWhile isWhiteSpace (rev (dropWhile isWhiteSpace s)))"

text \<open>The create dialog of the Gantt view: its form fields, and the notices it raises.\<close>

record form =
  newTaskLabel :: string
  newTaskStart :: string
  newTaskEnd :: string
  newTaskOwner :: string
  newTaskCategory :: string
  isCreateDialogOpen :: bool

datatype toast = Toast_error string | Toast_success string string

record ui =
  stores :: app
  form :: form
  toasts :: "toast list"

text \<open>
  \<open>handleCreateTask\<close> of the Gantt view. \<open>onCreateTask\<close> is an optional property, and
  \<open>localDate s\<close> stands for \<open>new Date(s).toLocaleDateString()\<close>.
\<close>

definition GanttView_handleCreateTask ::
  "(string \<Rightarrow> string) \<Rightarrow> string \<Rightarrow> (taskData \<Rightarrow> app \<Rightarrow> app) option \<Rightarrow> ui \<Rightarrow> ui" where
  "GanttView_handleCreateTask localDate kickoff onCreateTask u =
     (let f = form u in
      if trim (newTaskLabel f) = [] then
        u\<lparr>toasts := toasts u @ [Toast_error ''Please enter a task name'']\<rparr>
      else
        (case onCreateTask of
           None \<Rightarrow> u
         | Some create \<Rightarrow>
             (let categoryValue =
                    (if newTaskCategory f = ''none'' then None else Some (newTaskCategory f));
                  categoryInfo =
                    (case categoryValue of
                       None \<Rightarrow> []
                     | Some c \<Rightarrow>
                         if c = [] then []
                         else '' | '' @ (case map_of categoryLabels c of
                                           None \<Rightarrow> ''undefined'' | Some l \<Rightarrow> l))
              in u\<lparr>stores := create \<lparr>label_d = newTaskLabel f, start_d = newTaskStart f,
                                       end_d = newTaskEnd f, owner_d = newTaskOwner f,
                                       category_d = categoryValue\<rparr> (stores u),
                    toasts := toasts u @
                      [Toast_success (''Created task \"'' @ newTaskLabel f @ ''\"'')
                         (''Owner: '' @ newTaskOwner f @ categoryInfo @ '' | '' @
                            localDate (newTaskStart f) @ '' - '' @ localDate (newTaskEnd f))],
                    form := \<lparr>newTaskLabel = [], newTaskStart = kickoff, newTaskEnd = kickoff,
                              newTaskOwner = ''Leadership'', newTaskCategory = ''none'',
                              isCreateDialogOpen = False\<rparr>\<rparr>)))"

section \<open>Persisted state\<close>

text \<open>
  \<open>JSON.parse\<close>: the text is cut into tokens, and the tokens drive a stack of the open
  arrays and objects. A parsed string is the list of its code units, with the escapes
  decoded (\<open>units\<close> gives the code units of a plain string); a number is the value of
  its lexeme; an object is a finite map from its keys to their values. A text that is not
  JSON raises \<open>SyntaxError\<close>.
\<close>

type_synonym ustring = "nat list"

definition units :: "string \<Rightarrow> ustring" where
  "units s = map of_char s"

datatype json =
  JNull | JBool bool | JNumber rat | JString ustring
| JArray "json list" | JObject "(ustring, json) fmap"

datatype exn = SyntaxError

datatype token =
  LBrace | RBrace | LBracket | RBracket | Colon | Comma
| TString ustring | TNumber rat | TTrue | TFalse | TNull

definition isHex :: "char \<Rightarrow> bool" where
  "isHex c = (c \<in> set ''0123456789abcdefABCDEF'')"

definition isLetter :: "char \<Rightarrow> bool" where
  "isLetter c = (c \<in> set ''abcdefghijklmnopqrstuvwxyz'')"

definition isJsonSpace :: "char \<Rightarrow> bool" where
  "isJsonSpace c = ((of_char c :: nat) \<in> {32, 9, 10, 13})"

definition hexValue :: "string \<Rightarrow> nat" where
  "hexValue s =
     fold (\<lambda>c n. 16 * n +
             (if isDigit c then of_char c - 48
              else if c \<in> set ''abcdef'' then of_char c - 87
              else of_char c - 55)) s 0"

definition escapeValue :: "char \<Rightarrow> nat option" where
  "escapeValue e =
     (if e = CHR 0x22 then Some 34
      else if e = CHR 0x5C then Some 92
      else if e = CHR ''/'' then Some 47
      else if e = CHR ''b'' then Some 8
      else if e = CHR ''f'' then Some 12
      else if e = CHR ''n'' then Some 10
      else if e = CHR ''r'' then Some 13
      else if e = CHR ''t'' then Some 9
      else None)"

fun scanString :: "ustring \<Rightarrow> string \<Rightarrow> (ustring \<times> string) option" where
  "scanString acc [] = None"
| "scanString acc (c # cs) =
     (if c = CHR 0x22 then Some (rev acc, cs)
      else if c = CHR 0x5C then
        (case cs of
           [] \<Rightarrow> None
         | e # cs' \<Rightarrow>
             (case escapeValue e of
                Some u \<Rightarrow> scanString (u # acc) cs'
              | None \<Rightarrow>
                  if e = CHR ''u'' \<and> 4 \<le> length cs' \<and> list_all isHex (take 4 cs')
                  then scanString (hexValue (take 4 cs') # acc) (drop 4 cs')
                  else None))
      else if (of_char c :: nat) < 32 then None
      else scanString (of_char c # acc) cs)"

definition exponent :: "string \<Rightarrow> bool" where
  "exponent r =
     (case r of
        [] \<Rightarrow> True
      | e # r' \<Rightarrow>
          (e = CHR ''e'' \<or> e = CHR ''E'') \<and>
          (let ds = (case r' of [] \<Rightarrow> [] | s # x \<Rightarrow> if s = CHR ''+'' \<or> s = CHR ''-'' then x else r')
           in ds \<noteq> [] \<and> list_all isDigit ds))"

definition fraction :: "string \<Rightarrow> bool" where
  "fraction r =
     (case r of
        [] \<Rightarrow> True
      | d # r' \<Rightarrow>
          if d = CHR ''.'' then takeWhile isDigit r' \<noteq> [] \<and> exponent (dropWhile isDigit r')
          else exponent r)"

definition validNumber :: "string \<Rightarrow> bool" where
  "validNumber lexeme =
     (let s = (case lexeme of [] \<Rightarrow> [] | m # r \<Rightarrow> if m = CHR ''-'' then r else lexeme)
      in case s of
           [] \<Rightarrow> False
         | d # r \<Rightarrow>
             if d = CHR ''0'' then fraction r
             else isDigit d \<and> fraction (dropWhile isDigit r))"

definition isNumberChar :: "char \<Rightarrow> bool" where
  "isNumberChar c = (isDigit c \<or> c \<in> set ''+-.eE'')"

text \<open>The value of a lexeme that \<open>validNumber\<close> accepts.\<close>

definition numberValue :: "string \<Rightarrow> rat" where
  "numberValue lexeme =
     (let negative = (take 1 lexeme = ''-'');
          s = (if negative then drop 1 lexeme else lexeme);
          whole = takeWhile isDigit s;
          r = dropWhile isDigit s;
          frac = (if take 1 r = ''.'' then takeWhile isDigit (drop 1 r) else []);
          r' = (if take 1 r = ''.'' then dropWhile isDigit (drop 1 r) else r);
          ex = (case r' of
                  [] \<Rightarrow> 0
                | e # x \<Rightarrow>
                    if take 1 x = ''-'' then - digits (drop 1 x)
                    else if take 1 x = ''+'' then digits (drop 1 x)
                    else digits x);
          mantissa = of_int (digits (whole @ frac)) / 10 ^ length frac;
          scaled = (if 0 \<le> ex then mantissa * 10 ^ nat ex else mantissa / 10 ^ nat (- ex))
      in if negative then - scaled else scaled)"

lemma scanString_shorter: "scanString acc cs = Some (s, r) \<Longrightarrow> length r < length cs"
proof (induction acc cs rule: scanString.induct)
  case (1 acc)
  then show ?case by simp
next
  case (2 acc c cs)
  show ?case
  proof (cases "c = CHR 0x22")
    case True
    with 2 show ?thesis by simp
  next
    case q: False
    show ?thesis
    proof (cases "c = CHR 0x5C")
      case True
      show ?thesis
      proof (cases cs)
        case Nil
        with 2(4) q True show ?thesis by simp
      next
        case (Cons e cs')
        show ?thesis
        proof (cases "escapeValue e")
          case (Some u)
          with 2(4) q True Cons have "scanString (u # acc) cs' = Some (s, r)"
            by simp
          from 2(2) [OF q True Cons Some this] Cons show ?thesis
            by simp
        next
          case None
          show ?thesis
          proof (cases "e = CHR ''u'' \<and> 4 \<le> length cs' \<and> list_all isHex (take 4 cs')")
            case h: True
            with 2(4) q True Cons None
            have "scanString (hexValue (take 4 cs') # acc) (drop 4 cs') = Some (s, r)"
              by simp
            from 2(1) [OF q True Cons None h this] Cons show ?thesis
              by simp
          next
            case False
            with 2(4) q True Cons None show ?thesis
              by simp
          qed
        qed
      qed
    next
      case b: False
      show ?thesis
      proof (cases "(of_char c :: nat) < 32")
        case True
        with 2(4) q b show ?thesis by simp
      next
        case False
        with 2(4) q b have "scanString (of_char c # acc) cs = Some (s, r)"
          by simp
        from 2(3) [OF q b False this] show ?thesis
          by simp
      qed
    qed
  qed
qed

function tokenize :: "string \<Rightarrow> token list option" where
  "tokenize [] = Some []"
| "tokenize (c # cs) =
     (if isJsonSpace c then tokenize cs
      else if c = CHR ''{'' then map_option (Cons LBrace) (tokenize cs)
      else if c = CHR ''}'' then map_option (Cons RBrace) (tokenize cs)
      else if c = CHR ''['' then map_option (Cons LBracket) (tokenize cs)
      else if c = CHR '']'' then map_option (Cons RBracket) (tokenize cs)
      else if c = CHR '':'' then map_option (Cons Colon) (tokenize cs)
      else if c = CHR '','' then map_option (Cons Comma) (tokenize cs)
      else if c = CHR 0x22 then
        (case scanString [] cs of
           None \<Rightarrow> None
         | Some (s, r) \<Rightarrow> map_option (Cons (TString s)) (tokenize r))
      else if c = CHR ''-'' \<or> isDigit c then
        (let lexeme = c # takeWhile isNumberChar cs
         in if validNumber lexeme
            then map_option (Cons (TNumber (numberValue lexeme)))
                   (tokenize (dropWhile isNumberChar cs))
            else None)
      else if isLetter c then
        (let word = c # takeWhile isLetter cs; r = dropWhile isLetter cs
         in if word = ''true'' then map_option (Cons TTrue) (tokenize r)
            else if word = ''false'' then map_option (Cons TFalse) (tokenize r)
            else if word = ''null'' then map_option (Cons TNull) (tokenize r)
            else None)
      else None)"
  by pat_completeness auto
termination
  apply (relation "measure length")
  apply (simp_all add: le_imp_less_Suc length_dropWhile_le)
  apply (auto dest: scanString_shorter)
  done

text \<open>
  An open array holds its elements so far, last first; an open object holds its members
  so far and the key that waits for its value. A repeated key replaces the earlier value.
\<close>

datatype frame = AFrame "json list" | OFrame "(ustring, json) fmap" ustring

datatype expect = Value | FirstElem | FirstKey | Key | ColonNext | Sep | End json

definition complete :: "json \<Rightarrow> frame list \<Rightarrow> (frame list \<times> expect) option" where
  "complete v stack =
     (case stack of
        [] \<Rightarrow> Some ([], End v)
      | AFrame es # st \<Rightarrow> Some (AFrame (v # es) # st, Sep)
      | OFrame ms k # st \<Rightarrow> Some (OFrame (fmupd k v ms) k # st, Sep))"

definition closeArray :: "frame list \<Rightarrow> (frame list \<times> expect) option" where
  "closeArray stack =
     (case stack of AFrame es # st \<Rightarrow> complete (JArray (rev es)) st | _ \<Rightarrow> None)"

definition closeObject :: "frame list \<Rightarrow> (frame list \<times> expect) option" where
  "closeObject stack =
     (case stack of OFrame ms k # st \<Rightarrow> complete (JObject ms) st | _ \<Rightarrow> None)"

definition beginValue :: "token \<Rightarrow> frame list \<Rightarrow> (frame list \<times> expect) option" where
  "beginValue tok stack =
     (case tok of
        TString s \<Rightarrow> complete (JString s) stack
      | TNumber n \<Rightarrow> complete (JNumber n) stack
      | TTrue \<Rightarrow> complete (JBool True) stack
      | TFalse \<Rightarrow> complete (JBool False) stack
      | TNull \<Rightarrow> complete JNull stack
      | LBracket \<Rightarrow> Some (AFrame [] # stack, FirstElem)
      | LBrace \<Rightarrow> Some (OFrame fmempty [] # stack, FirstKey)
      | _ \<Rightarrow> None)"

definition beginKey :: "token \<Rightarrow> frame list \<Rightarrow> (frame list \<times> expect) option" where
  "beginKey tok stack =
     (case (tok, stack) of
        (TString k, OFrame ms _ # st) \<Rightarrow> Some (OFrame ms k # st, ColonNext)
      | _ \<Rightarrow> None)"

definition step :: "token \<Rightarrow> frame list \<times> expect \<Rightarrow> (frame list \<times> expect) option" where
  "step tok state =
     (case state of (stack, e) \<Rightarrow>
        (case e of
           Value \<Rightarrow> beginValue tok stack
         | FirstElem \<Rightarrow> if tok = RBracket then closeArray stack else beginValue tok stack
         | FirstKey \<Rightarrow> if tok = RBrace then closeObject stack else beginKey tok stack
         | Key \<Rightarrow> beginKey tok stack
         | ColonNext \<Rightarrow> if tok = Colon then Some (stack, Value) else None
         | Sep \<Rightarrow>
             if tok = Comma then
               (case stack of
                  AFrame _ # _ \<Rightarrow> Some (stack, Value)
                | OFrame _ _ # _ \<Rightarrow> Some (stack, Key)
                | [] \<Rightarrow> None)
             else if tok = RBracket then closeArray stack
             else if tok = RBrace then closeObject stack
             else None
         | End _ \<Rightarrow> None))"

fun run :: "token list \<Rightarrow> frame list \<times> expect \<Rightarrow> (frame list \<times> expect) option" where
  "run [] state = Some state"
| "run (tok # toks) state = (case step tok state of None \<Rightarrow> None | Some state' \<Rightarrow> run toks state')"

definition JSON_parse :: "string \<Rightarrow> exn + json" where
  "JSON_parse text =
     (case tokenize text of
        None \<Rightarrow> Inl SyntaxError
      | Some toks \<Rightarrow>
          (case run toks ([], Value) of
             Some ([], End v) \<Rightarrow> Inr v
           | _ \<Rightarrow> Inl SyntaxError))"

text \<open>
  The built-in defaults and the two initialisers that read the local storage once at
  startup. \<open>getItem\<close> gives \<open>null\<close> for a missing key; \<open>null\<close> and the empty string
  are falsy. The value that \<open>JSON.parse\<close> returns becomes the state as it is.
\<close>

definition defaultCategoryColors :: json where
  "defaultCategoryColors =
     JObject (fmap_of_list
       [(units ''website'', JString (units ''#6366f1'')),
        (units ''tradeshow'', JString (units ''#eab308'')),
        (units ''templates'', JString (units ''#10b981'')),
        (units ''visual-assets'', JString (units ''#8b5cf6''))])"

definition sampleSubtaskProgress :: json where
  "sampleSubtaskProgress =
     JObject (fmap_of_list
       [(units ''foundations'',
         JObject (fmap_of_list
           [(units ''mission'', JBool True), (units ''vision'', JBool False),
            (units ''values'', JBool False), (units ''positioning'', JBool False),
            (units ''messages'', JBool False)]))])"

definition categoryColors_init :: "(string \<rightharpoonup> string) \<Rightarrow> exn + json" where
  "categoryColors_init localStorage =
     (case localStorage ''categoryColors'' of
        None \<Rightarrow> Inr defaultCategoryColors
      | Some saved \<Rightarrow> if saved = [] then Inr defaultCategoryColors else JSON_parse saved)"

definition subtaskProgress_init :: "(string \<rightharpoonup> string) \<Rightarrow> exn + json" where
  "subtaskProgress_init localStorage =
     (case localStorage ''subtaskProgress'' of
        None \<Rightarrow> Inr sampleSubtaskProgress
      | Some saved \<Rightarrow> if saved = [] then Inr sampleSubtaskProgress else JSON_parse saved)"

section \<open>Entries of the catalog used in the examples\<close>

text \<open>
  The catalog \<open>allProjectTasks\<close> and the table \<open>subtaskDefinitions\<close> are parameters of
  the functions above. These are their first entries.
\<close>

definition foundations :: task where
  "foundations = \<lparr>id_t = ''foundations'', label = ''Brand Foundations'', start = ''2025-11-10'',
     end_t = ''2025-12-22'', owner = ''Leadership'', category = None\<rparr>"

definition verbal :: task where
  "verbal = \<lparr>id_t = ''verbal'', label = ''Verbal Identity'', start = ''2025-11-24'',
     end_t = ''2026-01-09'', owner = ''Marketing'', category = None\<rparr>"

definition foundations_subtasks :: "subtask list" where
  "foundations_subtasks =
    [\<lparr>id_s = ''mission'', label_s = ''Mission Statement'', weight = 0.25,
       description = ''Define company purpose and reason for existence''\<rparr>,
     \<lparr>id_s = ''vision'', label_s = ''Vision Statement'', weight = 0.25,
       description = ''Articulate long-term aspirations and future state''\<rparr>,
     \<lparr>id_s = ''values'', label_s = ''Core Values'', weight = 0.2,
       description = ''Establish fundamental beliefs and operating principles''\<rparr>,
     \<lparr>id_s = ''positioning'', label_s = ''Brand Positioning'', weight = 0.2,
       description = ''Define unique market position and competitive differentiation''\<rparr>,
     \<lparr>id_s = ''messages'', label_s = ''Key Messages'', weight = 0.1,
       description = ''Craft primary communication themes and talking points''\<rparr>]"

section \<open>Basic facts\<close>

lemma isoDate_examples:
  "isoDate ''2026-01-01'' = Some 1767225600000"
  "isoDate ''2026-01-10'' = Some 1768003200000"
  "isoDate ''2026-01-11'' = Some 1768089600000"
  "isoDate ''2026-02-01'' = Some 1769904000000"
  "isoDate ''2025-12-31'' = Some 1767139200000"
  "isoDate ''2025-11-01'' = Some 1761955200000"
  "isoDate ''2025-11-10'' = Some 1762732800000"
  "isoDate ''2025-11-24'' = Some 1763942400000"
  "isoDate ''2025-12-22'' = Some 1766361600000"
  "isoDate ''2026-01-09'' = Some 1767916800000"
  "isoDate [] = None"
  by code_simp+

lemma lt_js_simps:
  "lt_js (Some x) (Some y) = (x < y)" "lt_js None b = False" "lt_js a None = False"
  by (simp_all add: lt_js_def split: option.splits)

lemma le_js_simps:
  "le_js (Some x) (Some y) = (x \<le> y)" "le_js None b = False" "le_js a None = False"
  by (simp_all add: le_js_def split: option.splits)

lemma extend_fields:
  "id_t (task.extend t m) = id_t t" "start (task.extend t m) = start t"
  "end_t (task.extend t m) = end_t t" "owner (task.extend t m) = owner t"
  "label (task.extend t m) = label t" "category (task.extend t m) = category t"
  by (simp_all add: task.defs)

lemma allTasks_map:
  "allTasks toDate allProjectTasks st
   = map (\<lambda>t. buildRow toDate (withOverride (taskOverrides st) t))
       (filter (\<lambda>t. id_t t \<notin> deletedTaskIds st) (allProjectTasks @ customTasks st))"
  by (simp add: allTasks_def buildRows_def Let_def del: filter_append)

section \<open>Status derivation\<close>



text \<open>
  An edit can put the end date before the start date: after \<open>onUpdateTask\<close> with start
  2026-02-01 and end 2026-01-10 the effective task \<open>foundations\<close> has these dates.
\<close>

lemma end_before_start_after_edit:
  "task.truncate (allTasks isoDate [foundations]
      (onUpdateTask ''foundations''
         \<lparr>start_o = Some ''2026-02-01'', end_o = Some ''2026-01-10'',
          owner_o = Some ''Leadership'', label_o = Some ''Brand Foundations''\<rparr>
         \<lparr>taskOverrides = Map.empty, customTasks = [], deletedTaskIds = {},
          subtaskProgress = Map.empty\<rparr>) ! 0)
   = \<lparr>id_t = ''foundations'', label = ''Brand Foundations'', start = ''2026-02-01'',
      end_t = ''2026-01-10'', owner = ''Leadership'', category = None\<rparr>"
  by (simp add: allTasks_def buildRows_def buildRow_def withOverride_def onUpdateTask_def
      or_js_def foundations_def Let_def task.defs)


text \<open>
  C3: a task whose progress is 100 is completed in the owner view and in the countdown
  view, and the dashboard counts it as completed, whatever the reference date, also when
  it lies before the start date.
\<close>

theorem completed_at_100:
  assumes "taskProgress prog t = 100"
  shows "getTaskStatus toDate prog currentDate t = Completed
       \<and> tasksWithCountdown toDate prog currentDate t = (St_completed, Some 0)
       \<and> countTask toDate prog currentDate t s = s\<lparr>completed := completed s + 1\<rparr>"
  using assms by (simp add: getTaskStatus_def tasksWithCountdown_def countTask_def Let_def)

theorem completed_at_100_witness:
  "taskProgress [''t'' \<mapsto> 100]
     \<lparr>id_t = ''t'', label = ''L'', start = ''2026-01-01'', end_t = ''2026-01-10'',
      owner = ''Design'', category = None\<rparr> = 100
   \<and> lt_js (isoDate ''2025-12-31'') (isoDate ''2026-01-01'')
   \<and> getTaskStatus isoDate [''t'' \<mapsto> 100] ''2025-12-31''
     \<lparr>id_t = ''t'', label = ''L'', start = ''2026-01-01'', end_t = ''2026-01-10'',
      owner = ''Design'', category = None\<rparr> = Completed
   \<and> tasksWithCountdown isoDate [''t'' \<mapsto> 100] ''2025-12-31''
     \<lparr>id_t = ''t'', label = ''L'', start = ''2026-01-01'', end_t = ''2026-01-10'',
      owner = ''Design'', category = None\<rparr> = (St_completed, Some 0)"
proof -
  let ?t = "\<lparr>id_t = ''t'', label = ''L'', start = ''2026-01-01'', end_t = ''2026-01-10'',
      owner = ''Design'', category = None\<rparr>"
  have p: "taskProgress [''t'' \<mapsto> 100] ?t = 100"
    by (simp add: taskProgress_def)
  from completed_at_100 [OF p, of isoDate "''2025-12-31''"] p
  show ?thesis
    by (simp add: isoDate_examples lt_js_simps)
qed

text \<open>
  C7: with the status filter on not-started the predicate is exactly
  ``reference date before start date'', whatever the progress, and with no search term and
  no owner filter the filtered list is the tasks that start after the reference date. The
  catalog task \<open>foundations\<close> at 100 percent, seen on 2025-11-01 before its start on
  2025-11-10, passes the completed filter and the not-started filter.
\<close>

theorem not_started_filter_ignores_progress:
  "matchesStatus toDate ''not-started'' prog currentDate t
     = lt_js (toDate currentDate) (toDate (start t))
   \<and> filteredTasks toDate toLowerCase [] ''all'' ''not-started'' prog currentDate tasks
     = filter (\<lambda>t. lt_js (toDate currentDate) (toDate (start t))) tasks
   \<and> taskProgress [''foundations'' \<mapsto> 100] foundations = 100
   \<and> matchesStatus isoDate ''completed'' [''foundations'' \<mapsto> 100] ''2025-11-01'' foundations
   \<and> matchesStatus isoDate ''not-started'' [''foundations'' \<mapsto> 100] ''2025-11-01'' foundations
   \<and> filteredTasks isoDate (\<lambda>s. s) [] ''all'' ''completed'' [''foundations'' \<mapsto> 100]
       ''2025-11-01'' [buildRow isoDate foundations] = [buildRow isoDate foundations]
   \<and> filteredTasks isoDate (\<lambda>s. s) [] ''all'' ''not-started'' [''foundations'' \<mapsto> 100]
       ''2025-11-01'' [buildRow isoDate foundations] = [buildRow isoDate foundations]"
  by (simp add: filteredTasks_def matchesStatus_def taskProgress_def buildRow_def Let_def
      extend_fields foundations_def isoDate_examples lt_js_simps)

section \<open>Dashboard counts\<close>

lemma countTask_sum:
  assumes "taskProgress prog t \<le> 100"
    and "taskProgress prog t < 100 \<longrightarrow>
      toDate currentDate \<noteq> None \<and> toDate (start t) \<noteq> None \<and> toDate (end_t t) \<noteq> None"
  shows "completed (countTask toDate prog currentDate t s)
       + inProgress (countTask toDate prog currentDate t s)
       + notStarted (countTask toDate prog currentDate t s)
       + overdue (countTask toDate prog currentDate t s)
       = completed s + inProgress s + notStarted s + overdue s + 1"
proof (cases "taskProgress prog t = 100")
  case True
  then show ?thesis
    by (simp add: countTask_def Let_def)
next
  case False
  with assms obtain a b c where
    "toDate currentDate = Some a" "toDate (start t) = Some b" "toDate (end_t t) = Some c"
    by auto
  with False assms(1) show ?thesis
    by (auto simp: countTask_def Let_def lt_js_simps le_js_simps)
qed

lemma countTask_total: "total (countTask toDate prog currentDate t s) = total s"
  by (simp add: countTask_def Let_def)

lemma fold_countTask_sum:
  assumes "\<forall>t \<in> set tasks. taskProgress prog t \<le> 100"
    and "\<forall>t \<in> set tasks. taskProgress prog t < 100 \<longrightarrow>
      toDate currentDate \<noteq> None \<and> toDate (start t) \<noteq> None \<and> toDate (end_t t) \<noteq> None"
  shows "completed (fold (countTask toDate prog currentDate) tasks s)
       + inProgress (fold (countTask toDate prog currentDate) tasks s)
       + notStarted (fold (countTask toDate prog currentDate) tasks s)
       + overdue (fold (countTask toDate prog currentDate) tasks s)
       = completed s + inProgress s + notStarted s + overdue s + length tasks
     \<and> total (fold (countTask toDate prog currentDate) tasks s) = total s"
  using assms
proof (induction tasks arbitrary: s)
  case Nil
  then show ?case by simp
next
  case (Cons t tasks)
  have t: "taskProgress prog t \<le> 100"
    using Cons.prems(1) by simp
  have v: "taskProgress prog t < 100 \<longrightarrow>
      toDate currentDate \<noteq> None \<and> toDate (start t) \<noteq> None \<and> toDate (end_t t) \<noteq> None"
    using Cons.prems(2) by simp
  have rest: "\<forall>t \<in> set tasks. taskProgress prog t \<le> 100"
    using Cons.prems(1) by simp
  have rest': "\<forall>t \<in> set tasks. taskProgress prog t < 100 \<longrightarrow>
      toDate currentDate \<noteq> None \<and> toDate (start t) \<noteq> None \<and> toDate (end_t t) \<noteq> None"
    using Cons.prems(2) by simp
  show ?case
    using Cons.IH [OF rest rest', of "countTask toDate prog currentDate t s"]
      countTask_sum [OF t v, of s]
    by (simp add: countTask_total)
qed

text \<open>
  C10, as the code has it: when no task has a progress above 100 and, for every task below
  100, the reference date and the task's start and end date are valid dates, the
  dashboard's four counters add up to the number of tasks, which is its total.
\<close>

theorem dashboard_counts_sum_to_total:
  assumes "\<forall>t \<in> set tasks. taskProgress prog t \<le> 100"
    and "\<forall>t \<in> set tasks. taskProgress prog t < 100 \<longrightarrow>
      toDate currentDate \<noteq> None \<and> toDate (start t) \<noteq> None \<and> toDate (end_t t) \<noteq> None"
  shows "completed (dashboardStats toDate prog currentDate tasks)
       + inProgress (dashboardStats toDate prog currentDate tasks)
       + notStarted (dashboardStats toDate prog currentDate tasks)
       + overdue (dashboardStats toDate prog currentDate tasks)
       = length tasks
     \<and> total (dashboardStats toDate prog currentDate tasks) = length tasks"
  using fold_countTask_sum [OF assms] by (simp add: dashboardStats_def)

theorem dashboard_counts_sum_to_total_witness:
  "taskProgress [''foundations'' \<mapsto> 100, ''verbal'' \<mapsto> 50] foundations \<le> 100
   \<and> taskProgress [''foundations'' \<mapsto> 100, ''verbal'' \<mapsto> 50] verbal \<le> 100
   \<and> isoDate ''2026-01-10'' = Some 1768003200000
   \<and> isoDate (start verbal) = Some 1763942400000
   \<and> isoDate (end_t verbal) = Some 1767916800000
   \<and> completed (dashboardStats isoDate [''foundations'' \<mapsto> 100, ''verbal'' \<mapsto> 50]
         ''2026-01-10'' [foundations, verbal])
     + inProgress (dashboardStats isoDate [''foundations'' \<mapsto> 100, ''verbal'' \<mapsto> 50]
         ''2026-01-10'' [foundations, verbal])
     + notStarted (dashboardStats isoDate [''foundations'' \<mapsto> 100, ''verbal'' \<mapsto> 50]
         ''2026-01-10'' [foundations, verbal])
     + overdue (dashboardStats isoDate [''foundations'' \<mapsto> 100, ''verbal'' \<mapsto> 50]
         ''2026-01-10'' [foundations, verbal]) = 2"
proof -
  have h: "\<forall>t \<in> set [foundations, verbal].
      taskProgress [''foundations'' \<mapsto> 100, ''verbal'' \<mapsto> 50] t \<le> 100"
    by (simp add: taskProgress_def foundations_def verbal_def)
  have d: "isoDate ''2026-01-10'' = Some 1768003200000
      \<and> isoDate (start verbal) = Some 1763942400000
      \<and> isoDate (end_t verbal) = Some 1767916800000"
    by (simp add: verbal_def isoDate_examples)
  have v: "\<forall>t \<in> set [foundations, verbal].
      taskProgress [''foundations'' \<mapsto> 100, ''verbal'' \<mapsto> 50] t < 100 \<longrightarrow>
      isoDate ''2026-01-10'' \<noteq> None \<and> isoDate (start t) \<noteq> None \<and> isoDate (end_t t) \<noteq> None"
    using d by (simp add: taskProgress_def foundations_def verbal_def)
  from dashboard_counts_sum_to_total
      [of "[foundations, verbal]" "[''foundations'' \<mapsto> 100, ''verbal'' \<mapsto> 50]" isoDate
        "''2026-01-10''", OF h v] h d
  show ?thesis
    by simp
qed

text \<open>
  C10 as stated fails at an invalid reference date. A cleared date picker stores the empty
  string; then every comparison is false, the task \<open>verbal\<close> at 50 percent is counted
  nowhere, and the counters add up to 1 for a total of 2.
\<close>

theorem dashboard_counts_sum_to_total_counterexample:
  "taskProgress [''foundations'' \<mapsto> 100, ''verbal'' \<mapsto> 50] foundations \<le> 100
   \<and> taskProgress [''foundations'' \<mapsto> 100, ''verbal'' \<mapsto> 50] verbal \<le> 100
   \<and> isoDate [] = None
   \<and> completed (dashboardStats isoDate [''foundations'' \<mapsto> 100, ''verbal'' \<mapsto> 50]
         [] [foundations, verbal])
     + inProgress (dashboardStats isoDate [''foundations'' \<mapsto> 100, ''verbal'' \<mapsto> 50]
         [] [foundations, verbal])
     + notStarted (dashboardStats isoDate [''foundations'' \<mapsto> 100, ''verbal'' \<mapsto> 50]
         [] [foundations, verbal])
     + overdue (dashboardStats isoDate [''foundations'' \<mapsto> 100, ''verbal'' \<mapsto> 50]
         [] [foundations, verbal]) = 1
   \<and> total (dashboardStats isoDate [''foundations'' \<mapsto> 100, ''verbal'' \<mapsto> 50]
         [] [foundations, verbal]) = 2"
  by (simp add: dashboardStats_def countTask_def taskProgress_def foundations_def verbal_def
      Let_def isoDate_examples lt_js_simps le_js_simps)

section \<open>The effective task list\<close>

lemma or_js_cases:
  "or_js (Some v) b = (if v = [] then b else v)" "or_js None b = b"
  by (simp_all add: or_js_def)

text \<open>
  C4: the effective task at a position of the list is the base task at that position of
  the tasks that are not deleted, and when the base task has an override entry each of
  start, end, owner and label is the override's value if that is present and not empty,
  and the base task's value otherwise. The id and the category are the base task's.
\<close>

theorem override_merge:
  assumes "base = filter (\<lambda>t. id_t t \<notin> deletedTaskIds st) (allProjectTasks @ customTasks st)"
    and "i < length base"
    and "taskOverrides st (id_t (base ! i)) = Some ov"
    and "r = allTasks toDate allProjectTasks st ! i"
  shows "length (allTasks toDate allProjectTasks st) = length base
    \<and> id_t r = id_t (base ! i) \<and> category r = category (base ! i)
    \<and> start r = (case start_o ov of Some v \<Rightarrow> if v \<noteq> [] then v else start (base ! i)
                   | None \<Rightarrow> start (base ! i))
    \<and> end_t r = (case end_o ov of Some v \<Rightarrow> if v \<noteq> [] then v else end_t (base ! i)
                   | None \<Rightarrow> end_t (base ! i))
    \<and> owner r = (case owner_o ov of Some v \<Rightarrow> if v \<noteq> [] then v else owner (base ! i)
                   | None \<Rightarrow> owner (base ! i))
    \<and> label r = (case label_o ov of Some v \<Rightarrow> if v \<noteq> [] then v else label (base ! i)
                   | None \<Rightarrow> label (base ! i))"
proof -
  have m: "allTasks toDate allProjectTasks st
      = map (\<lambda>t. buildRow toDate (withOverride (taskOverrides st) t)) base"
    unfolding assms(1) by (rule allTasks_map)
  have len: "length (allTasks toDate allProjectTasks st) = length base"
    unfolding m by simp
  have r: "r = buildRow toDate (withOverride (taskOverrides st) (base ! i))"
    unfolding assms(4) m using assms(2) by (rule nth_map)
  have w: "withOverride (taskOverrides st) (base ! i)
     = (base ! i)\<lparr>start := or_js (start_o ov) (start (base ! i)),
                  end_t := or_js (end_o ov) (end_t (base ! i)),
                  owner := or_js (owner_o ov) (owner (base ! i)),
                  label := or_js (label_o ov) (label (base ! i))\<rparr>"
    using assms(3) by (simp add: withOverride_def)
  show ?thesis
    unfolding r w using len
    by (simp add: buildRow_def Let_def extend_fields or_js_def split: option.splits)
qed

text \<open>
  The example of C4: an override that only sets the owner changes the owner and leaves
  start, end and label as the catalog has them.
\<close>

theorem override_merge_witness:
  "[foundations, verbal]
     = filter (\<lambda>t. id_t t \<notin> deletedTaskIds
         \<lparr>taskOverrides = [''foundations'' \<mapsto>
             \<lparr>start_o = None, end_o = None, owner_o = Some ''Marketing'', label_o = None\<rparr>],
          customTasks = [verbal], deletedTaskIds = {}, subtaskProgress = Map.empty\<rparr>)
       ([foundations] @ customTasks
         \<lparr>taskOverrides = [''foundations'' \<mapsto>
             \<lparr>start_o = None, end_o = None, owner_o = Some ''Marketing'', label_o = None\<rparr>],
          customTasks = [verbal], deletedTaskIds = {}, subtaskProgress = Map.empty\<rparr>)
   \<and> task.truncate (allTasks isoDate [foundations]
         \<lparr>taskOverrides = [''foundations'' \<mapsto>
             \<lparr>start_o = None, end_o = None, owner_o = Some ''Marketing'', label_o = None\<rparr>],
          customTasks = [verbal], deletedTaskIds = {}, subtaskProgress = Map.empty\<rparr> ! 0)
     = \<lparr>id_t = ''foundations'', label = ''Brand Foundations'', start = ''2025-11-10'',
        end_t = ''2025-12-22'', owner = ''Marketing'', category = None\<rparr>"
proof -
  let ?st = "\<lparr>taskOverrides = [''foundations'' \<mapsto>
             \<lparr>start_o = None, end_o = None, owner_o = Some ''Marketing'', label_o = None\<rparr>],
          customTasks = [verbal], deletedTaskIds = {}, subtaskProgress = Map.empty\<rparr>"
  have b: "[foundations, verbal]
     = filter (\<lambda>t. id_t t \<notin> deletedTaskIds ?st) ([foundations] @ customTasks ?st)"
    by simp
  have i: "0 < length [foundations, verbal]"
    by simp
  have o: "taskOverrides ?st (id_t ([foundations, verbal] ! 0))
     = Some \<lparr>start_o = None, end_o = None, owner_o = Some ''Marketing'', label_o = None\<rparr>"
    by (simp add: foundations_def)
  from override_merge [OF b i o refl, of isoDate] b
  show ?thesis
    by (simp add: foundations_def buildRow_def Let_def task.defs)
qed

lemma id_withOverride: "id_t (withOverride ovs t) = id_t t"
  by (simp add: withOverride_def split: option.splits)

lemma ids_allTasks:
  "map id_t (allTasks toDate cat st)
     = filter (\<lambda>i. i \<notin> deletedTaskIds st) (map id_t (cat @ customTasks st))"
  by (simp add: allTasks_map filter_map comp_def buildRow_def Let_def extend_fields id_withOverride)

lemma withOverride_other:
  "id_t t \<noteq> taskId \<Longrightarrow> withOverride (ovs(taskId := None)) t = withOverride ovs t"
  by (simp add: withOverride_def)

lemma id_buildRow: "id_t (buildRow toDate t) = id_t t"
  by (simp add: buildRow_def Let_def extend_fields)

lemma allTasks_after_delete:
  "allTasks toDate allProjectTasks (handleDeleteTask taskId st)
   = filter (\<lambda>r. id_t r \<noteq> taskId) (allTasks toDate allProjectTasks st)"
proof -
  let ?base = "allProjectTasks @ customTasks st"
  have "map (\<lambda>t. buildRow toDate (withOverride ((taskOverrides st)(taskId := None)) t))
          (filter (\<lambda>t. id_t t \<notin> insert taskId (deletedTaskIds st)) ?base)
      = map (\<lambda>t. buildRow toDate (withOverride (taskOverrides st) t))
          (filter (\<lambda>t. id_t t \<notin> insert taskId (deletedTaskIds st)) ?base)"
    by (rule map_cong) (auto simp: withOverride_other)
  also have "\<dots> = filter (\<lambda>r. id_t r \<noteq> taskId)
      (map (\<lambda>t. buildRow toDate (withOverride (taskOverrides st) t))
         (filter (\<lambda>t. id_t t \<notin> deletedTaskIds st) ?base))"
    by (simp add: filter_map comp_def id_buildRow id_withOverride conj_commute
        del: filter_append)
  finally show ?thesis
    unfolding allTasks_map by (simp add: handleDeleteTask_def del: filter_append)
qed

text \<open>
  C6: deleting a task adds its id to the deletion set and keeps the ids that were there,
  removes its override entry and its subtask-completion entry and keeps the entries of
  the other ids, and leaves the custom tasks as they are; the effective task list
  afterwards is the former one without the tasks of that id, so no effective task has it.
\<close>

theorem delete_task_cascades:
  "deletedTaskIds (handleDeleteTask taskId st) = insert taskId (deletedTaskIds st)
   \<and> taskId \<in> deletedTaskIds (handleDeleteTask taskId st)
   \<and> taskOverrides (handleDeleteTask taskId st) = (taskOverrides st)(taskId := None)
   \<and> taskOverrides (handleDeleteTask taskId st) taskId = None
   \<and> subtaskProgress (handleDeleteTask taskId st) = (subtaskProgress st)(taskId := None)
   \<and> subtaskProgress (handleDeleteTask taskId st) taskId = None
   \<and> customTasks (handleDeleteTask taskId st) = customTasks st
   \<and> allTasks toDate allProjectTasks (handleDeleteTask taskId st)
       = filter (\<lambda>r. id_t r \<noteq> taskId) (allTasks toDate allProjectTasks st)
   \<and> taskId \<notin> id_t ` set (allTasks toDate allProjectTasks (handleDeleteTask taskId st))"
proof -
  have "taskId \<notin> id_t ` set (allTasks toDate allProjectTasks (handleDeleteTask taskId st))"
    unfolding allTasks_after_delete by auto
  then show ?thesis
    using allTasks_after_delete [of toDate allProjectTasks taskId st]
    by (simp add: handleDeleteTask_def)
qed

lemma withOverride_empty: "withOverride Map.empty = (\<lambda>t. t)"
  by (rule ext) (simp add: withOverride_def)

text \<open>
  C9: resetting the overrides twice leaves the same state, hence the same effective task
  list, as resetting them once; neither call changes the custom tasks or the deletion set,
  and after a reset every remaining task has its own values.
\<close>

theorem reset_overrides_idempotent:
  "onResetTimelines (onResetTimelines st) = onResetTimelines st
   \<and> allTasks toDate allProjectTasks (onResetTimelines (onResetTimelines st))
       = allTasks toDate allProjectTasks (onResetTimelines st)
   \<and> customTasks (onResetTimelines st) = customTasks st
   \<and> deletedTaskIds (onResetTimelines st) = deletedTaskIds st
   \<and> customTasks (onResetTimelines (onResetTimelines st)) = customTasks st
   \<and> deletedTaskIds (onResetTimelines (onResetTimelines st)) = deletedTaskIds st
   \<and> allTasks toDate allProjectTasks (onResetTimelines st)
       = buildRows toDate (filter (\<lambda>t. id_t t \<notin> deletedTaskIds st) (allProjectTasks @ customTasks st))"
  by (simp add: onResetTimelines_def allTasks_def withOverride_empty Let_def)

section \<open>Weighted progress\<close>

lemma fold_totalProgress:
  "fold (\<lambda>s total. if c (id_s s) = Some True then total + weight s * 100 else total)
     subtasks acc
   = acc + 100 * (\<Sum>s\<leftarrow>filter (\<lambda>s. c (id_s s) = Some True) subtasks. weight s)"
  by (induction subtasks arbitrary: acc) (simp_all add: algebra_simps)

lemma totalProgress_sum:
  "totalProgress subtasks c
   = 100 * (\<Sum>s\<leftarrow>filter (\<lambda>s. c (id_s s) = Some True) subtasks. weight s)"
  by (simp add: totalProgress_def fold_totalProgress)

lemma fold_keys:
  "fold (\<lambda>k result. case m k of None \<Rightarrow> result | Some v \<Rightarrow> result(k \<mapsto> f k v)) keys init k
   = (if k \<in> set keys then (case m k of None \<Rightarrow> init k | Some v \<Rightarrow> Some (f k v)) else init k)"
  by (induction keys arbitrary: init) (auto split: option.splits)

lemma fold_zero:
  "fold (\<lambda>t result. if result (id_t t) = None \<or> result (id_t t) = Some 0
                     then result(id_t t \<mapsto> 0) else result) tasks init k
   = (if k \<in> id_t ` set tasks \<and> (init k = None \<or> init k = Some 0) then Some (0::int) else init k)"
  by (induction tasks arbitrary: init) auto

lemma floor_rat_numeral:
  "\<lfloor>numeral a / numeral b :: rat\<rfloor> = numeral a div numeral b"
  using floor_divide_of_int_eq [of "numeral a" "numeral b", where ?'a = rat] by simp

text \<open>
  C1: a task id with an entry in the subtask table is mapped to the rounded hundredfold of
  the summed weights of its subtasks whose completion flag is true; every other id of an
  effective task is mapped to 0.
\<close>

theorem progress_weighted:
  "(map_of subtaskDefinitions taskId = Some subtasks \<longrightarrow>
      progress subtaskDefinitions sp tasks taskId
        = Some (Math_round (100 *
            (\<Sum>s\<leftarrow>filter (\<lambda>s. \<exists>c. sp taskId = Some c \<and> c (id_s s) = Some True) subtasks.
               weight s))))
   \<and> (map_of subtaskDefinitions taskId = None \<and> taskId \<in> id_t ` set tasks \<longrightarrow>
      progress subtaskDefinitions sp tasks taskId = Some 0)"
proof (intro conjI impI)
  assume d: "map_of subtaskDefinitions taskId = Some subtasks"
  then have k: "taskId \<in> set (map fst subtaskDefinitions)"
    by (metis map_of_eq_None_iff option.distinct(1) set_map)
  have flt: "filter (\<lambda>s. \<exists>c. sp taskId = Some c \<and> c (id_s s) = Some True) subtasks
     = filter (\<lambda>s. (case sp taskId of None \<Rightarrow> Map.empty | Some c \<Rightarrow> c) (id_s s) = Some True) subtasks"
    by (cases "sp taskId") simp_all
  show "progress subtaskDefinitions sp tasks taskId
        = Some (Math_round (100 *
            (\<Sum>s\<leftarrow>filter (\<lambda>s. \<exists>c. sp taskId = Some c \<and> c (id_s s) = Some True) subtasks.
               weight s)))"
    unfolding flt progress_def Let_def fold_zero fold_keys
    using d k by (simp add: totalProgress_sum)
next
  assume "map_of subtaskDefinitions taskId = None \<and> taskId \<in> id_t ` set tasks"
  then show "progress subtaskDefinitions sp tasks taskId = Some 0"
    unfolding progress_def Let_def fold_zero fold_keys by simp
qed

text \<open>
  The example of C1: the subtasks of \<open>foundations\<close> weigh 0.25, 0.25, 0.2, 0.2 and 0.1;
  with the first two complete the progress is 50. \<open>verbal\<close> has no entry in this table
  and gets 0.
\<close>

theorem progress_weighted_witness:
  "map_of [(''foundations'', foundations_subtasks)] ''foundations'' = Some foundations_subtasks
   \<and> map weight foundations_subtasks = [0.25, 0.25, 0.2, 0.2, 0.1]
   \<and> progress [(''foundations'', foundations_subtasks)]
        [''foundations'' \<mapsto> [''mission'' \<mapsto> True, ''vision'' \<mapsto> True, ''values'' \<mapsto> False]]
        [foundations, verbal] ''foundations'' = Some 50
   \<and> map_of [(''foundations'', foundations_subtasks)] ''verbal'' = None
   \<and> ''verbal'' \<in> id_t ` set [foundations, verbal]
   \<and> progress [(''foundations'', foundations_subtasks)]
        [''foundations'' \<mapsto> [''mission'' \<mapsto> True, ''vision'' \<mapsto> True, ''values'' \<mapsto> False]]
        [foundations, verbal] ''verbal'' = Some 0"
proof -
  let ?defs = "[(''foundations'', foundations_subtasks)]"
  let ?sp = "[''foundations'' \<mapsto> [''mission'' \<mapsto> True, ''vision'' \<mapsto> True, ''values'' \<mapsto> False]]"
  have d: "map_of ?defs ''foundations'' = Some foundations_subtasks"
    by simp
  have n: "map_of ?defs ''verbal'' = None \<and> ''verbal'' \<in> id_t ` set [foundations, verbal]"
    by (simp add: verbal_def)
  have v: "Math_round (100 *
      (\<Sum>s\<leftarrow>filter (\<lambda>s. \<exists>c. ?sp ''foundations'' = Some c \<and> c (id_s s) = Some True)
           foundations_subtasks. weight s)) = 50"
    by (simp add: foundations_subtasks_def Math_round_def floor_rat_numeral)
  have w: "map weight foundations_subtasks = [0.25, 0.25, 0.2, 0.2, 0.1]"
    by (simp add: foundations_subtasks_def)
  from progress_weighted [of ?defs "''foundations''" foundations_subtasks ?sp "[foundations, verbal]"]
    progress_weighted [of ?defs "''verbal''" foundations_subtasks ?sp "[foundations, verbal]"]
    d n v w
  show ?thesis
    by (simp add: verbal_def foundations_def)
qed

section \<open>Creating a task\<close>

lemma trim_empty_iff: "trim s = [] \<longleftrightarrow> (\<forall>c \<in> set s. isWhiteSpace c)"
proof -
  have b: "(\<forall>x \<in> set (dropWhile isWhiteSpace s). isWhiteSpace x)
      \<longleftrightarrow> dropWhile isWhiteSpace s = []"
  proof
    assume a: "\<forall>x \<in> set (dropWhile isWhiteSpace s). isWhiteSpace x"
    show "dropWhile isWhiteSpace s = []"
    proof (rule ccontr)
      assume n: "dropWhile isWhiteSpace s \<noteq> []"
      then have "\<not> isWhiteSpace (hd (dropWhile isWhiteSpace s))"
        by (rule hd_dropWhile)
      moreover have "hd (dropWhile isWhiteSpace s) \<in> set (dropWhile isWhiteSpace s)"
        using n by simp
      ultimately show False
        using a by blast
    qed
  next
    assume e: "dropWhile isWhiteSpace s = []"
    show "\<forall>x \<in> set (dropWhile isWhiteSpace s). isWhiteSpace x"
      unfolding e by simp
  qed
  have a: "trim s = [] \<longleftrightarrow> (\<forall>x \<in> set (dropWhile isWhiteSpace s). isWhiteSpace x)"
    by (simp add: trim_def dropWhile_eq_Nil_conv)
  have c: "dropWhile isWhiteSpace s = [] \<longleftrightarrow> (\<forall>c \<in> set s. isWhiteSpace c)"
    by (simp add: dropWhile_eq_Nil_conv)
  show ?thesis
    using a b c by blast
qed

text \<open>
  C8: when the label of the create dialog is empty after trimming, the handler raises the
  notice ``Please enter a task name'' and changes nothing else: the stores, with the custom
  tasks among them, and the form are as before, whatever the callback is.
\<close>

theorem create_task_rejects_blank_label:
  assumes "trim (newTaskLabel (form u)) = []"
  shows "GanttView_handleCreateTask localDate kickoff onCreateTask u
           = u\<lparr>toasts := toasts u @ [Toast_error ''Please enter a task name'']\<rparr>
       \<and> stores (GanttView_handleCreateTask localDate kickoff onCreateTask u) = stores u
       \<and> customTasks (stores (GanttView_handleCreateTask localDate kickoff onCreateTask u))
           = customTasks (stores u)
       \<and> form (GanttView_handleCreateTask localDate kickoff onCreateTask u) = form u
       \<and> toasts (GanttView_handleCreateTask localDate kickoff onCreateTask u)
           = toasts u @ [Toast_error ''Please enter a task name'']"
  using assms by (simp add: GanttView_handleCreateTask_def Let_def)

theorem create_task_rejects_blank_label_witness:
  "trim (newTaskLabel (form
      \<lparr>stores = \<lparr>taskOverrides = Map.empty, customTasks = [verbal], deletedTaskIds = {},
                  subtaskProgress = Map.empty\<rparr>,
       form = \<lparr>newTaskLabel = ''   '', newTaskStart = ''2025-11-10'', newTaskEnd = ''2025-11-10'',
                newTaskOwner = ''Leadership'', newTaskCategory = ''none'',
                isCreateDialogOpen = True\<rparr>,
       toasts = []\<rparr>)) = []
   \<and> GanttView_handleCreateTask (\<lambda>s. s) ''2025-11-10'' (Some (handleCreateTask ''1767225600000'' ''k3j9x2m1q''))
      \<lparr>stores = \<lparr>taskOverrides = Map.empty, customTasks = [verbal], deletedTaskIds = {},
                  subtaskProgress = Map.empty\<rparr>,
       form = \<lparr>newTaskLabel = ''   '', newTaskStart = ''2025-11-10'', newTaskEnd = ''2025-11-10'',
                newTaskOwner = ''Leadership'', newTaskCategory = ''none'',
                isCreateDialogOpen = True\<rparr>,
       toasts = []\<rparr>
     = \<lparr>stores = \<lparr>taskOverrides = Map.empty, customTasks = [verbal], deletedTaskIds = {},
                  subtaskProgress = Map.empty\<rparr>,
       form = \<lparr>newTaskLabel = ''   '', newTaskStart = ''2025-11-10'', newTaskEnd = ''2025-11-10'',
                newTaskOwner = ''Leadership'', newTaskCategory = ''none'',
                isCreateDialogOpen = True\<rparr>,
       toasts = [Toast_error ''Please enter a task name'']\<rparr>"
proof -
  let ?u = "\<lparr>stores = \<lparr>taskOverrides = Map.empty, customTasks = [verbal], deletedTaskIds = {},
                  subtaskProgress = Map.empty\<rparr>,
       form = \<lparr>newTaskLabel = ''   '', newTaskStart = ''2025-11-10'', newTaskEnd = ''2025-11-10'',
                newTaskOwner = ''Leadership'', newTaskCategory = ''none'',
                isCreateDialogOpen = True\<rparr>,
       toasts = []\<rparr>"
  have b: "trim (newTaskLabel (form ?u)) = []"
    by (simp add: trim_def isWhiteSpace_def)
  from create_task_rejects_blank_label [OF b, of "\<lambda>s. s" "''2025-11-10''"
      "Some (handleCreateTask ''1767225600000'' ''k3j9x2m1q'')"] b
  show ?thesis
    by simp
qed

section \<open>Loading the persisted state\<close>

lemma JSON_parse_open_brace: "JSON_parse ''{'' = Inl SyntaxError"
  by code_simp

lemma JSON_parse_one_colour:
  "JSON_parse ''{\"website\":\"#000000\"}''
     = Inr (JObject (fmap_of_list [(units ''website'', JString (units ''#000000''))]))"
  by code_simp

lemma JSON_parse_defaults:
  "JSON_parse ''{\"website\":\"#6366f1\",\"tradeshow\":\"#eab308\",\"templates\":\"#10b981\",\"visual-assets\":\"#8b5cf6\"}''
     = Inr defaultCategoryColors"
  by code_simp

text \<open>
  C5, as the code has it: each initialiser gives the built-in default when its key is
  missing or holds the empty string. Any other stored text goes to \<open>JSON.parse\<close>, and
  the initialiser's result is that call's result: the \<open>SyntaxError\<close> when the text is
  malformed, the whole parsed value otherwise. No state is built from a part of the text.
\<close>

theorem init_from_storage:
  "(localStorage ''categoryColors'' = None \<or> localStorage ''categoryColors'' = Some [] \<longrightarrow>
      categoryColors_init localStorage = Inr defaultCategoryColors)
   \<and> (localStorage ''categoryColors'' = Some saved \<and> saved \<noteq> [] \<longrightarrow>
      categoryColors_init localStorage = JSON_parse saved)
   \<and> (localStorage ''categoryColors'' = Some saved \<and> saved \<noteq> [] \<and> JSON_parse saved = Inl e \<longrightarrow>
      categoryColors_init localStorage = Inl e)
   \<and> (localStorage ''subtaskProgress'' = None \<or> localStorage ''subtaskProgress'' = Some [] \<longrightarrow>
      subtaskProgress_init localStorage = Inr sampleSubtaskProgress)
   \<and> (localStorage ''subtaskProgress'' = Some saved' \<and> saved' \<noteq> [] \<longrightarrow>
      subtaskProgress_init localStorage = JSON_parse saved')
   \<and> (localStorage ''subtaskProgress'' = Some saved' \<and> saved' \<noteq> [] \<and> JSON_parse saved' = Inl e' \<longrightarrow>
      subtaskProgress_init localStorage = Inl e')"
  by (auto simp: categoryColors_init_def subtaskProgress_init_def)

text \<open>
  The cases of C5: no \<open>categoryColors\<close> key gives the default; the malformed text
  \<open>{\<close> under \<open>subtaskProgress\<close> raises; a well-formed object with one colour becomes
  the state as it is; and the defaults as the dashboard itself stores them are read back
  as the defaults, so the default is also the result for some stored texts.
\<close>

theorem init_from_storage_witness:
  "[''subtaskProgress'' \<mapsto> ''{''] ''categoryColors'' = None
   \<and> categoryColors_init [''subtaskProgress'' \<mapsto> ''{''] = Inr defaultCategoryColors
   \<and> [''subtaskProgress'' \<mapsto> ''{''] ''subtaskProgress'' = Some ''{''
   \<and> JSON_parse ''{'' = Inl SyntaxError
   \<and> subtaskProgress_init [''subtaskProgress'' \<mapsto> ''{''] = Inl SyntaxError
   \<and> categoryColors_init [''categoryColors'' \<mapsto> ''{\"website\":\"#000000\"}'']
     = Inr (JObject (fmap_of_list [(units ''website'', JString (units ''#000000''))]))
   \<and> categoryColors_init [''categoryColors'' \<mapsto>
       ''{\"website\":\"#6366f1\",\"tradeshow\":\"#eab308\",\"templates\":\"#10b981\",\"visual-assets\":\"#8b5cf6\"}'']
     = Inr defaultCategoryColors"
  using init_from_storage [of "[''subtaskProgress'' \<mapsto> ''{'']" "''x''" SyntaxError "''{''" SyntaxError]
    init_from_storage [of "[''categoryColors'' \<mapsto> ''{\"website\":\"#000000\"}'']"
      "''{\"website\":\"#000000\"}''" SyntaxError "''x''" SyntaxError]
    init_from_storage [of "[''categoryColors'' \<mapsto>
       ''{\"website\":\"#6366f1\",\"tradeshow\":\"#eab308\",\"templates\":\"#10b981\",\"visual-assets\":\"#8b5cf6\"}'']"
      "''{\"website\":\"#6366f1\",\"tradeshow\":\"#eab308\",\"templates\":\"#10b981\",\"visual-assets\":\"#8b5cf6\"}''"
      SyntaxError "''x''" SyntaxError]
    JSON_parse_open_brace JSON_parse_one_colour JSON_parse_defaults
  by simp

text \<open>
  C5 as stated fails: with the malformed text \<open>{\<close> under \<open>categoryColors\<close> the initialiser
  raises \<open>SyntaxError\<close> and does not give the default.
\<close>

theorem init_from_storage_counterexample:
  "JSON_parse ''{'' = Inl SyntaxError
   \<and> categoryColors_init [''categoryColors'' \<mapsto> ''{''] = Inl SyntaxError
   \<and> categoryColors_init [''categoryColors'' \<mapsto> ''{''] \<noteq> Inr defaultCategoryColors"
  by (simp add: categoryColors_init_def JSON_parse_open_brace)

end
